theory Spec2Isabelle
  imports Complex_Main
begin

section \<open>JavaScript numbers\<close>

text \<open>
  The particle engine computes with JavaScript \<^verbatim>\<open>number\<close>s. They are modelled as exact
  reals extended with the three special values of IEEE arithmetic, so that a division by
  zero and everything it contaminates stay visible in the model. Rounding, overflow and
  the sign of zero are not modelled: a zero divisor is taken as \<^verbatim>\<open>+0\<close>, which is what
  \<^verbatim>\<open>Math.sqrt\<close> returns for the only divisor of the engine that can be zero.
\<close>

datatype number = Num real | Infinity | NegInfinity | NaN

instantiation number :: "{uminus, plus, minus, times, inverse, ord}"
begin

fun uminus_number :: "number \<Rightarrow> number" where
  "uminus_number (Num a) = Num (- a)"
| "uminus_number Infinity = NegInfinity"
| "uminus_number NegInfinity = Infinity"
| "uminus_number NaN = NaN"

fun plus_number :: "number \<Rightarrow> number \<Rightarrow> number" where
  "plus_number (Num a) (Num b) = Num (a + b)"
| "plus_number (Num a) Infinity = Infinity"
| "plus_number (Num a) NegInfinity = NegInfinity"
| "plus_number Infinity (Num b) = Infinity"
| "plus_number Infinity Infinity = Infinity"
| "plus_number Infinity NegInfinity = NaN"
| "plus_number NegInfinity (Num b) = NegInfinity"
| "plus_number NegInfinity Infinity = NaN"
| "plus_number NegInfinity NegInfinity = NegInfinity"
| "plus_number NaN b = NaN"
| "plus_number a NaN = NaN"

fun minus_number :: "number \<Rightarrow> number \<Rightarrow> number" where
  "minus_number a b = a + (- b)"

fun times_number :: "number \<Rightarrow> number \<Rightarrow> number" where
  "times_number (Num a) (Num b) = Num (a * b)"
| "times_number (Num a) Infinity =
     (if a = 0 then NaN else if 0 < a then Infinity else NegInfinity)"
| "times_number (Num a) NegInfinity =
     (if a = 0 then NaN else if 0 < a then NegInfinity else Infinity)"
| "times_number Infinity (Num b) =
     (if b = 0 then NaN else if 0 < b then Infinity else NegInfinity)"
| "times_number NegInfinity (Num b) =
     (if b = 0 then NaN else if 0 < b then NegInfinity else Infinity)"
| "times_number Infinity Infinity = Infinity"
| "times_number Infinity NegInfinity = NegInfinity"
| "times_number NegInfinity Infinity = NegInfinity"
| "times_number NegInfinity NegInfinity = Infinity"
| "times_number NaN b = NaN"
| "times_number a NaN = NaN"

fun divide_number :: "number \<Rightarrow> number \<Rightarrow> number" where
  "divide_number (Num a) (Num b) =
     (if b = 0 then (if a = 0 then NaN else if 0 < a then Infinity else NegInfinity)
      else Num (a / b))"
| "divide_number (Num a) Infinity = Num 0"
| "divide_number (Num a) NegInfinity = Num 0"
| "divide_number Infinity (Num b) = (if 0 \<le> b then Infinity else NegInfinity)"
| "divide_number NegInfinity (Num b) = (if 0 \<le> b then NegInfinity else Infinity)"
| "divide_number Infinity Infinity = NaN"
| "divide_number Infinity NegInfinity = NaN"
| "divide_number NegInfinity Infinity = NaN"
| "divide_number NegInfinity NegInfinity = NaN"
| "divide_number NaN b = NaN"
| "divide_number a NaN = NaN"

fun inverse_number :: "number \<Rightarrow> number" where
  "inverse_number a = divide (Num 1) a"

fun less_number :: "number \<Rightarrow> number \<Rightarrow> bool" where
  "less_number (Num a) (Num b) = (a < b)"
| "less_number (Num a) Infinity = True"
| "less_number NegInfinity (Num b) = True"
| "less_number NegInfinity Infinity = True"
| "less_number a b = False"

fun less_eq_number :: "number \<Rightarrow> number \<Rightarrow> bool" where
  "less_eq_number (Num a) (Num b) = (a \<le> b)"
| "less_eq_number (Num a) Infinity = True"
| "less_eq_number NegInfinity (Num b) = True"
| "less_eq_number NegInfinity Infinity = True"
| "less_eq_number Infinity Infinity = True"
| "less_eq_number NegInfinity NegInfinity = True"
| "less_eq_number a b = False"

instance ..

end

text \<open>\<^verbatim>\<open>Math.sqrt\<close>: NaN below zero.\<close>

fun Math_sqrt :: "number \<Rightarrow> number" where
  "Math_sqrt (Num a) = (if a < 0 then NaN else Num (sqrt a))"
| "Math_sqrt Infinity = Infinity"
| "Math_sqrt NegInfinity = NaN"
| "Math_sqrt NaN = NaN"

fun Math_floor :: "number \<Rightarrow> number" where
  "Math_floor (Num a) = Num (of_int \<lfloor>a\<rfloor>)"
| "Math_floor a = a"

text \<open>
  \<^verbatim>\<open>xs[i]\<close> on an array: the element when \<open>i\<close> is an index of the array, and
  \<^verbatim>\<open>undefined\<close> (here \<open>None\<close>) otherwise; nothing is thrown.
\<close>

fun array_get :: "'a list \<Rightarrow> number \<Rightarrow> 'a option" where
  "array_get xs (Num i) =
     (if 0 \<le> i \<and> i = of_int \<lfloor>i\<rfloor> \<and> nat \<lfloor>i\<rfloor> < length xs then Some (xs ! nat \<lfloor>i\<rfloor>)
      else None)"
| "array_get xs i = None"

definition array_length :: "'a list \<Rightarrow> number" where
  "array_length xs = Num (real (length xs))"

text \<open>
  \<^verbatim>\<open>Math.random()\<close> reads and advances a hidden generator. The generator is the stream of
  the draws still to come; each draw is a real, in \<open>[0, 1)\<close> for the real generator.
\<close>

type_synonym rng = "nat \<Rightarrow> real"

definition Math_random :: "rng \<Rightarrow> number \<times> rng" where
  "Math_random rs = (Num (rs 0), (\<lambda>n. rs (Suc n)))"

definition unit_draws :: "rng \<Rightarrow> bool" where
  "unit_draws rs = (\<forall>n. 0 \<le> rs n \<and> rs n < 1)"

section \<open>Data model (types.ts)\<close>

datatype InteractionMode = REPEL | ATTRACT | TRAIL

datatype Gesture = Open | Closed

record ParticleConfig =
  gravity :: number
  friction :: number
  speed :: number
  particleCount :: number
  interactionRadius :: number
  interactionForce :: number
  interactionMode :: InteractionMode
  colors :: "string list"
  minSize :: number
  maxSize :: number
  fadeRate :: number

text \<open>
  The fields \<^verbatim>\<open>x\<close> and \<^verbatim>\<open>y\<close> of a hand position and the fields of a particle carry a
  prefix here, since record fields are constants of the theory. A missing
  \<^verbatim>\<open>gesture\<close> is \<open>None\<close>.
\<close>

record HandPosition =
  hand_x :: number
  hand_y :: number
  detected :: bool
  gesture :: "Gesture option"

section \<open>Particle (components/ParticleCanvas.tsx)\<close>

text \<open>The colour read from an empty palette is \<^verbatim>\<open>undefined\<close>, hence the option.\<close>

record Particle =
  p_x :: number
  p_y :: number
  p_vx :: number
  p_vy :: number
  p_size :: number
  p_color :: "string option"
  p_life :: number
  p_baseX :: number
  p_baseY :: number

text \<open>The constructor draws six random numbers, in the order of its assignments.\<close>

definition Particle_new :: "number \<Rightarrow> number \<Rightarrow> ParticleConfig \<Rightarrow> rng \<Rightarrow> Particle \<times> rng" where
  "Particle_new width height config rs0 =
     (let (r1, rs1) = Math_random rs0;
          x = r1 * width;
          (r2, rs2) = Math_random rs1;
          y = r2 * height;
          (r3, rs3) = Math_random rs2;
          vx = (r3 - Num 0.5) * speed config;
          (r4, rs4) = Math_random rs3;
          vy = (r4 - Num 0.5) * speed config;
          (r5, rs5) = Math_random rs4;
          sz = r5 * (maxSize config - minSize config) + minSize config;
          (r6, rs6) = Math_random rs5;
          col = array_get (colors config) (Math_floor (r6 * array_length (colors config)))
      in (\<lparr>p_x = x, p_y = y, p_vx = vx, p_vy = vy, p_size = sz, p_color = col,
           p_life = Num 1, p_baseX = x, p_baseY = y\<rparr>, rs6))"

text \<open>Lines 36 to 38 of \<^verbatim>\<open>update\<close>: gravity, then friction on both axes.\<close>

definition basic_physics :: "ParticleConfig \<Rightarrow> Particle \<Rightarrow> Particle" where
  "basic_physics config p =
     (let p1 = p\<lparr>p_vy := p_vy p + gravity config\<rparr>;
          p2 = p1\<lparr>p_vx := p_vx p1 * friction config\<rparr>
      in p2\<lparr>p_vy := p_vy p2 * friction config\<rparr>)"

text \<open>
  Lines 47 to 58: the mode, radius and force in effect, from the gesture when there is
  one and from the configuration otherwise.
\<close>

definition current_params ::
  "ParticleConfig \<Rightarrow> HandPosition \<Rightarrow> InteractionMode \<times> number \<times> number" where
  "current_params config hand =
     (if gesture hand = Some Closed then
        (ATTRACT, interactionRadius config * Num 1.2, interactionForce config * Num 1.5)
      else if gesture hand = Some Open then
        (REPEL, interactionRadius config, interactionForce config * Num 1.2)
      else (interactionMode config, interactionRadius config, interactionForce config))"

text \<open>Lines 41 to 80: the hand's force on the velocity.\<close>

definition hand_interaction ::
  "number \<Rightarrow> number \<Rightarrow> ParticleConfig \<Rightarrow> HandPosition \<Rightarrow> Particle \<Rightarrow> Particle" where
  "hand_interaction width height config hand p =
     (if detected hand then
        (let dx = hand_x hand * width - p_x p;
             dy = hand_y hand * height - p_y p;
             distance = Math_sqrt (dx * dx + dy * dy);
             (currentMode, currentRadius, currentForce) = current_params config hand
         in if distance < currentRadius then
              (let forceDirectionX = dx / distance;
                   forceDirectionY = dy / distance;
                   force = (currentRadius - distance) / currentRadius;
                   power = force * currentForce
               in case currentMode of
                    REPEL \<Rightarrow>
                      p\<lparr>p_vx := p_vx p - forceDirectionX * power,
                        p_vy := p_vy p - forceDirectionY * power\<rparr>
                  | ATTRACT \<Rightarrow>
                      p\<lparr>p_vx := p_vx p + forceDirectionX * power,
                        p_vy := p_vy p + forceDirectionY * power\<rparr>
                  | TRAIL \<Rightarrow>
                      p\<lparr>p_vx := p_vx p + (forceDirectionX * power) * Num 0.1,
                        p_vy := p_vy p + (forceDirectionY * power) * Num 0.1\<rparr>)
            else p)
      else p)"

text \<open>Lines 82 and 83.\<close>

definition integrate :: "Particle \<Rightarrow> Particle" where
  "integrate p = (let p1 = p\<lparr>p_x := p_x p + p_vx p\<rparr> in p1\<lparr>p_y := p_y p1 + p_vy p1\<rparr>)"

text \<open>Line 86: the test that sends a particle to the reset.\<close>

definition out_of_bounds :: "number \<Rightarrow> number \<Rightarrow> Particle \<Rightarrow> bool" where
  "out_of_bounds width height p =
     (p_x p < Num 0 \<or> p_x p > width \<or> p_y p < Num 0 \<or> p_y p > height \<or> p_life p \<le> Num 0)"

text \<open>Lines 87 to 100: the reset, four draws on either path.\<close>

definition reset ::
  "number \<Rightarrow> number \<Rightarrow> ParticleConfig \<Rightarrow> HandPosition \<Rightarrow> Particle \<Rightarrow> rng \<Rightarrow> Particle \<times> rng" where
  "reset width height config hand p rs0 =
     (let (r1, rs1) = Math_random rs0;
          (r2, rs2) = Math_random rs1;
          (r3, rs3) = Math_random rs2;
          (r4, rs4) = Math_random rs3;
          p1 = (if interactionMode config = TRAIL \<and> detected hand then
                  p\<lparr>p_x := hand_x hand * width + (r1 - Num 0.5) * Num 20,
                    p_y := hand_y hand * height + (r2 - Num 0.5) * Num 20,
                    p_vx := (r3 - Num 0.5) * speed config * Num 2,
                    p_vy := (r4 - Num 0.5) * speed config * Num 2\<rparr>
                else
                  p\<lparr>p_x := r1 * width,
                    p_y := r2 * height,
                    p_vx := (r3 - Num 0.5) * speed config,
                    p_vy := (r4 - Num 0.5) * speed config\<rparr>)
      in (p1\<lparr>p_life := Num 1\<rparr>, rs4))"

definition update ::
  "number \<Rightarrow> number \<Rightarrow> ParticleConfig \<Rightarrow> HandPosition \<Rightarrow> Particle \<Rightarrow> rng \<Rightarrow> Particle \<times> rng" where
  "update width height config hand p rs =
     (let p1 = basic_physics config p;
          p2 = hand_interaction width height config hand p1;
          p3 = integrate p2
      in if out_of_bounds width height p3 then reset width height config hand p3 rs
         else (p3, rs))"

section \<open>The population (ParticleCanvas component)\<close>

text \<open>
  The effect that fills \<^verbatim>\<open>particlesRef\<close>: one constructor call per pass of the loop, the
  counter compared with \<^verbatim>\<open>config.particleCount\<close> before each pass. With an infinite count
  the loop has no last pass, and the result is \<open>None\<close>.
\<close>

partial_function (option) init_particles_loop ::
  "number \<Rightarrow> number \<Rightarrow> ParticleConfig \<Rightarrow> nat \<Rightarrow> Particle list \<Rightarrow> rng \<Rightarrow> (Particle list \<times> rng) option" where
  "init_particles_loop width height config i ps rs =
     (if Num (real i) < particleCount config then
        (case Particle_new width height config rs of
           (p, rs') \<Rightarrow> init_particles_loop width height config (Suc i) (ps @ [p]) rs')
      else Some (ps, rs))"

definition init_particles ::
  "number \<Rightarrow> number \<Rightarrow> ParticleConfig \<Rightarrow> rng \<Rightarrow> (Particle list \<times> rng) option" where
  "init_particles width height config rs = init_particles_loop width height config 0 [] rs"

text \<open>The \<^verbatim>\<open>forEach\<close> of the animation loop: every particle updated once, in order.\<close>

fun update_all ::
  "number \<Rightarrow> number \<Rightarrow> ParticleConfig \<Rightarrow> HandPosition \<Rightarrow> Particle list \<Rightarrow> rng \<Rightarrow> Particle list \<times> rng" where
  "update_all width height config hand [] rs = ([], rs)"
| "update_all width height config hand (p # ps) rs =
     (case update width height config hand p rs of
        (p', rs') \<Rightarrow>
          (case update_all width height config hand ps rs' of
             (ps', rs'') \<Rightarrow> (p' # ps', rs'')))"

text \<open>
  Successive frames. Each frame reads the canvas size, the configuration and the hand
  position of its moment.
\<close>

type_synonym frame = "number \<times> number \<times> ParticleConfig \<times> HandPosition"

fun animate :: "frame list \<Rightarrow> Particle list \<Rightarrow> rng \<Rightarrow> Particle list \<times> rng" where
  "animate [] ps rs = (ps, rs)"
| "animate ((width, height, config, hand) # fs) ps rs =
     (case update_all width height config hand ps rs of (ps', rs') \<Rightarrow> animate fs ps' rs')"

text \<open>The same frames as one particle lives them.\<close>

fun updates :: "frame list \<Rightarrow> Particle \<Rightarrow> rng \<Rightarrow> Particle \<times> rng" where
  "updates [] p rs = (p, rs)"
| "updates ((width, height, config, hand) # fs) p rs =
     (case update width height config hand p rs of (p', rs') \<Rightarrow> updates fs p' rs')"

section \<open>Observables and sample inputs\<close>

text \<open>
  What the hand's force adds to the velocity of a particle in one update: the velocity
  after the interaction step less the velocity before it.
\<close>

definition velocity_delta ::
  "number \<Rightarrow> number \<Rightarrow> ParticleConfig \<Rightarrow> HandPosition \<Rightarrow> Particle \<Rightarrow> number \<times> number" where
  "velocity_delta width height config hand p =
     (let q = hand_interaction width height config hand p
      in (p_vx q - p_vx p, p_vy q - p_vy p))"

text \<open>The sign and scale each mode gives the force along the direction to the hand.\<close>

definition mode_factor :: "InteractionMode \<Rightarrow> real" where
  "mode_factor m = (case m of REPEL \<Rightarrow> - 1 | ATTRACT \<Rightarrow> 1 | TRAIL \<Rightarrow> 1 / 10)"

text \<open>A particle inside a canvas of the given size, without velocity and with life 1.\<close>

definition resting :: "real \<Rightarrow> real \<Rightarrow> Particle \<Rightarrow> bool" where
  "resting w h p =
     (\<exists>x y. p_x p = Num x \<and> p_y p = Num y \<and> 0 \<le> x \<and> x \<le> w \<and> 0 \<le> y \<and> y \<le> h \<and>
        p_vx p = Num 0 \<and> p_vy p = Num 0 \<and> p_life p = Num 1)"

text \<open>
  A frame that leaves such a particle alone: the given configuration, no hand detected,
  and a canvas at least as large as the given one.
\<close>

definition calm_frame :: "real \<Rightarrow> real \<Rightarrow> ParticleConfig \<Rightarrow> frame \<Rightarrow> bool" where
  "calm_frame w h config f =
     (case f of (width, height, config', hand) \<Rightarrow>
        Num w \<le> width \<and> Num h \<le> height \<and> config' = config \<and> \<not> detected hand)"

text \<open>
  Sample inputs: a configuration without gravity, friction or speed whose hand repels
  with force 2 over radius 100, an open hand over the middle of the canvas, a particle
  given by its position and velocity, and generators that repeat one draw.
\<close>

definition scenario_config :: ParticleConfig where
  "scenario_config =
     \<lparr>gravity = Num 0, friction = Num 1, speed = Num 0, particleCount = Num 2,
      interactionRadius = Num 100, interactionForce = Num 2, interactionMode = REPEL,
      colors = [''#ffffff'', ''#aaaaaa''], minSize = Num 1, maxSize = Num 3,
      fadeRate = Num 0.02\<rparr>"

definition open_hand :: HandPosition where
  "open_hand = \<lparr>hand_x = Num 0.5, hand_y = Num 0.5, detected = True, gesture = Some Open\<rparr>"

definition particle_at :: "real \<Rightarrow> real \<Rightarrow> real \<Rightarrow> real \<Rightarrow> Particle" where
  "particle_at x y vx vy =
     \<lparr>p_x = Num x, p_y = Num y, p_vx = Num vx, p_vy = Num vy, p_size = Num 2,
      p_color = Some ''#ffffff'', p_life = Num 1, p_baseX = Num x, p_baseY = Num y\<rparr>"

definition half_draws :: rng where
  "half_draws = (\<lambda>n. 1 / 2)"

definition late_draws :: rng where
  "late_draws = (\<lambda>n. 9 / 10)"

text \<open>
  More sample inputs: the same configuration in trail mode, a hand at the right edge of
  the canvas, a configuration with an empty palette and \<open>minSize > maxSize\<close>, and the
  particle the constructor returns on a canvas of 100 by 100 when every draw is a half.
\<close>

definition trail_config :: ParticleConfig where
  "trail_config = scenario_config\<lparr>interactionMode := TRAIL\<rparr>"

definition edge_hand :: HandPosition where
  "edge_hand = \<lparr>hand_x = Num 1, hand_y = Num 0.5, detected = True, gesture = Some Open\<rparr>"

definition bad_config :: ParticleConfig where
  "bad_config = scenario_config\<lparr>colors := [], minSize := Num 6, maxSize := Num 2\<rparr>"

definition born :: "real \<Rightarrow> string option \<Rightarrow> Particle" where
  "born sz col =
     \<lparr>p_x = Num 50, p_y = Num 50, p_vx = Num 0, p_vy = Num 0, p_size = Num sz,
      p_color = col, p_life = Num 1, p_baseX = Num 50, p_baseY = Num 50\<rparr>"

section \<open>What one update writes\<close>

lemma hand_interaction_frame:
  "p_x (hand_interaction width height config hand p) = p_x p"
  "p_y (hand_interaction width height config hand p) = p_y p"
  "p_size (hand_interaction width height config hand p) = p_size p"
  "p_color (hand_interaction width height config hand p) = p_color p"
  "p_life (hand_interaction width height config hand p) = p_life p"
  "p_baseX (hand_interaction width height config hand p) = p_baseX p"
  "p_baseY (hand_interaction width height config hand p) = p_baseY p"
  by (simp_all add: hand_interaction_def Let_def split_def split: InteractionMode.split)

lemma reset_frame:
  "p_size (fst (reset width height config hand p rs)) = p_size p"
  "p_color (fst (reset width height config hand p rs)) = p_color p"
  "p_baseX (fst (reset width height config hand p rs)) = p_baseX p"
  "p_baseY (fst (reset width height config hand p rs)) = p_baseY p"
  "p_life (fst (reset width height config hand p rs)) = Num 1"
  by (simp_all add: reset_def Let_def split_def)

lemma pre_reset_frame:
  "p_size (integrate (hand_interaction width height config hand (basic_physics config p))) = p_size p"
  "p_color (integrate (hand_interaction width height config hand (basic_physics config p))) = p_color p"
  "p_baseX (integrate (hand_interaction width height config hand (basic_physics config p))) = p_baseX p"
  "p_baseY (integrate (hand_interaction width height config hand (basic_physics config p))) = p_baseY p"
  "p_life (integrate (hand_interaction width height config hand (basic_physics config p))) = p_life p"
  by (simp_all add: integrate_def basic_physics_def Let_def hand_interaction_frame)

text \<open>
  Claim C7. One call of \<open>update\<close> leaves the size and the colour of the particle as they
  were, on the path through the reset as on the other: of the fields of a particle it
  writes the position, the velocity and the life only.
\<close>

theorem update_keeps_size_and_color:
  "p_size (fst (update width height config hand p rs)) = p_size p \<and>
   p_color (fst (update width height config hand p rs)) = p_color p \<and>
   p_baseX (fst (update width height config hand p rs)) = p_baseX p \<and>
   p_baseY (fst (update width height config hand p rs)) = p_baseY p \<and>
   p_size (fst (reset width height config hand p rs)) = p_size p \<and>
   p_color (fst (reset width height config hand p rs)) = p_color p"
  by (simp add: update_def Let_def reset_frame pre_reset_frame)

section \<open>The gesture decides mode, force and radius\<close>

text \<open>
  Claim C3. A closed hand attracts with one and a half times the configured force over
  1.2 times the configured radius; an open hand repels with 1.2 times the force over the
  configured radius; without a gesture the configuration applies as it is. These are the
  values the force computation runs on: a gesture acts on the velocity exactly as the
  configuration overridden in this way acts without a gesture.
\<close>

theorem gesture_sets_mode_force_radius:
  "current_params config (hand\<lparr>gesture := Some Closed\<rparr>) =
     (ATTRACT, interactionRadius config * Num 1.2, interactionForce config * Num 1.5) \<and>
   current_params config (hand\<lparr>gesture := Some Open\<rparr>) =
     (REPEL, interactionRadius config, interactionForce config * Num 1.2) \<and>
   current_params config (hand\<lparr>gesture := None\<rparr>) =
     (interactionMode config, interactionRadius config, interactionForce config) \<and>
   hand_interaction width height config (hand\<lparr>gesture := Some Closed\<rparr>) p =
     hand_interaction width height
       (config\<lparr>interactionMode := ATTRACT,
          interactionForce := interactionForce config * Num 1.5,
          interactionRadius := interactionRadius config * Num 1.2\<rparr>)
       (hand\<lparr>gesture := None\<rparr>) p \<and>
   hand_interaction width height config (hand\<lparr>gesture := Some Open\<rparr>) p =
     hand_interaction width height
       (config\<lparr>interactionMode := REPEL,
          interactionForce := interactionForce config * Num 1.2\<rparr>)
       (hand\<lparr>gesture := None\<rparr>) p"
  by (simp add: current_params_def hand_interaction_def)

section \<open>No hand, no force\<close>

text \<open>
  Claim C4. When no hand is detected the force field adds nothing to the velocity: the
  particle leaves the interaction step as it entered it, wherever it is and whatever
  gesture the signal still carries. The vector added to a finite velocity is zero, and
  the whole update is the same for any two signals without a detected hand.
\<close>

theorem undetected_hand_exerts_no_force:
  "hand_interaction width height config (hand\<lparr>detected := False\<rparr>) p = p \<and>
   velocity_delta width height config (hand\<lparr>detected := False\<rparr>)
     (p\<lparr>p_vx := Num vx, p_vy := Num vy\<rparr>) = (Num 0, Num 0) \<and>
   update width height config (hand\<lparr>detected := False\<rparr>) p rs =
     update width height config (hand'\<lparr>detected := False\<rparr>) p rs"
  by (simp add: hand_interaction_def velocity_delta_def update_def reset_def Let_def)

section \<open>Life\<close>

lemma update_life:
  "p_life p = Num 1 \<Longrightarrow> p_life (fst (update width height config hand p rs)) = Num 1"
  by (simp add: update_def Let_def reset_frame pre_reset_frame)

lemma updates_life:
  "p_life p = Num 1 \<Longrightarrow> p_life (fst (updates fs p rs)) = Num 1"
proof (induction fs arbitrary: p rs)
  case Nil
  then show ?case by simp
next
  case (Cons f fs)
  obtain width height config hand where f: "f = (width, height, config, hand)"
    by (cases f) auto
  obtain p' rs' where u: "update width height config hand p rs = (p', rs')"
    by (cases "update width height config hand p rs") auto
  have "p_life p' = Num 1"
    using update_life [OF Cons.prems, of width height config hand rs] u by simp
  then show ?case
    using Cons.IH [of p' rs'] f u by simp
qed

lemma Particle_new_life: "p_life (fst (Particle_new width height config rs)) = Num 1"
  by (simp add: Particle_new_def Let_def split_def)

text \<open>
  Claim C10. The life of a particle is 1 when the constructor returns and after every
  update, whatever the frames were. So in the next update, at the bounds test, the
  comparison of life with 0 is false, and the test is decided by the position alone.
\<close>

theorem life_is_always_one:
  "p_life (fst (Particle_new width0 height0 config0 rs0)) = Num 1 \<and>
   p_life (fst (updates fs (fst (Particle_new width0 height0 config0 rs0)) rs)) = Num 1 \<and>
   \<not> p_life (integrate (hand_interaction width height config hand (basic_physics config
        (fst (updates fs (fst (Particle_new width0 height0 config0 rs0)) rs))))) \<le> Num 0 \<and>
   out_of_bounds width height (integrate (hand_interaction width height config hand
        (basic_physics config
           (fst (updates fs (fst (Particle_new width0 height0 config0 rs0)) rs))))) =
     (let q = integrate (hand_interaction width height config hand (basic_physics config
        (fst (updates fs (fst (Particle_new width0 height0 config0 rs0)) rs))))
      in p_x q < Num 0 \<or> p_x q > width \<or> p_y q < Num 0 \<or> p_y q > height)"
  by (simp add: Particle_new_life updates_life pre_reset_frame out_of_bounds_def Let_def)

section \<open>Random draws and the constructor\<close>

lemma unit_drawsD: "unit_draws rs \<Longrightarrow> 0 \<le> rs n \<and> rs n < 1"
  by (simp add: unit_draws_def)

lemma unit_draws_samples: "unit_draws half_draws" "unit_draws late_draws"
  by (simp_all add: unit_draws_def half_draws_def late_draws_def)

lemma Particle_new_unit_draws:
  "unit_draws rs \<Longrightarrow> unit_draws (snd (Particle_new width height config rs))"
  by (simp add: Particle_new_def Let_def split_def Math_random_def unit_draws_def)

lemma Particle_new_fields:
  "p_x (fst (Particle_new width height config rs)) = Num (rs 0) * width"
  "p_y (fst (Particle_new width height config rs)) = Num (rs 1) * height"
  "p_vx (fst (Particle_new width height config rs)) = (Num (rs 2) - Num 0.5) * speed config"
  "p_vy (fst (Particle_new width height config rs)) = (Num (rs 3) - Num 0.5) * speed config"
  "p_size (fst (Particle_new width height config rs)) =
     Num (rs 4) * (maxSize config - minSize config) + minSize config"
  "p_color (fst (Particle_new width height config rs)) =
     array_get (colors config) (Math_floor (Num (rs 5) * array_length (colors config)))"
  by (simp_all add: Particle_new_def Let_def split_def Math_random_def numeral_eq_Suc
      del: minus_number.simps)

lemma Particle_new_resting:
  assumes "speed config = Num 0" and "0 \<le> w" and "0 \<le> h" and "unit_draws rs"
  shows "resting w h (fst (Particle_new (Num w) (Num h) config rs))"
proof -
  have d0: "0 \<le> rs 0 \<and> rs 0 < 1" and d1: "0 \<le> rs 1 \<and> rs 1 < 1"
    using assms(4) unit_drawsD by blast+
  have "rs 0 * w \<le> 1 * w" using d0 assms(2) by (intro mult_right_mono) auto
  moreover have "rs 1 * h \<le> 1 * h" using d1 assms(3) by (intro mult_right_mono) auto
  ultimately show ?thesis
    using d0 d1 assms(1,2,3)
    by (simp add: resting_def Particle_new_fields Particle_new_life)
qed

section \<open>Repel is attract negated\<close>

lemma minus_plus_negation: "(v - a) - v = - ((v + a) - v)" for v a :: number
  by (cases v; cases a) simp_all

lemma self_difference_negation: "v - v = - (v - v)" for v :: number
  by (cases v) simp_all

text \<open>
  Claim C5. Two force computations that agree on the particle, the hand's position and
  the radius and force in effect, one in mode repel and one in mode attract, add to the
  velocity two vectors that are each other's negation, component by component.
\<close>

theorem repel_negates_attract:
  assumes R: "current_params configR handR = (REPEL, radius, force)"
    and A: "current_params configA handA = (ATTRACT, radius, force)"
    and hx: "hand_x handR = hand_x handA" and hy: "hand_y handR = hand_y handA"
    and det: "detected handR = detected handA"
  shows "fst (velocity_delta width height configR handR p) =
           - fst (velocity_delta width height configA handA p) \<and>
         snd (velocity_delta width height configR handR p) =
           - snd (velocity_delta width height configA handA p)"
proof -
  define dx where "dx = hand_x handA * width - p_x p"
  define dy where "dy = hand_y handA * height - p_y p"
  define distance where "distance = Math_sqrt (dx * dx + dy * dy)"
  define power where "power = (radius - distance) / radius * force"
  show ?thesis
  proof (cases "detected handA \<and> distance < radius")
    case True
    have qR: "hand_interaction width height configR handR p =
        p\<lparr>p_vx := p_vx p - dx / distance * power, p_vy := p_vy p - dy / distance * power\<rparr>"
      using True R hx hy det
      by (simp add: hand_interaction_def Let_def dx_def dy_def distance_def power_def
          del: minus_number.simps)
    have qA: "hand_interaction width height configA handA p =
        p\<lparr>p_vx := p_vx p + dx / distance * power, p_vy := p_vy p + dy / distance * power\<rparr>"
      using True A
      by (simp add: hand_interaction_def Let_def dx_def dy_def distance_def power_def
          del: minus_number.simps)
    show ?thesis
      unfolding velocity_delta_def qR qA
      by (simp add: minus_plus_negation del: minus_number.simps)
  next
    case False
    have qR: "hand_interaction width height configR handR p = p"
      using False R hx hy det
      by (auto simp add: hand_interaction_def Let_def dx_def dy_def distance_def
          simp del: minus_number.simps)
    have qA: "hand_interaction width height configA handA p = p"
      using False A
      by (auto simp add: hand_interaction_def Let_def dx_def dy_def distance_def
          simp del: minus_number.simps)
    show ?thesis
      unfolding velocity_delta_def qR qA
      using self_difference_negation [of "p_vx p"] self_difference_negation [of "p_vy p"]
      by (simp del: minus_number.simps)
  qed
qed

theorem repel_negates_attract_witness:
  "current_params scenario_config (open_hand\<lparr>gesture := None\<rparr>) = (REPEL, Num 100, Num 2) \<and>
   current_params (scenario_config\<lparr>interactionMode := ATTRACT\<rparr>) (open_hand\<lparr>gesture := None\<rparr>) =
     (ATTRACT, Num 100, Num 2) \<and>
   fst (velocity_delta (Num 100) (Num 100) scenario_config (open_hand\<lparr>gesture := None\<rparr>)
          (particle_at 0 50 0 0)) = Num (- 1) \<and>
   fst (velocity_delta (Num 100) (Num 100) (scenario_config\<lparr>interactionMode := ATTRACT\<rparr>)
          (open_hand\<lparr>gesture := None\<rparr>) (particle_at 0 50 0 0)) = Num 1 \<and>
   fst (velocity_delta (Num 100) (Num 100) scenario_config (open_hand\<lparr>gesture := None\<rparr>)
          (particle_at 0 50 0 0)) =
     - fst (velocity_delta (Num 100) (Num 100) (scenario_config\<lparr>interactionMode := ATTRACT\<rparr>)
          (open_hand\<lparr>gesture := None\<rparr>) (particle_at 0 50 0 0)) \<and>
   snd (velocity_delta (Num 100) (Num 100) scenario_config (open_hand\<lparr>gesture := None\<rparr>)
          (particle_at 0 50 0 0)) =
     - snd (velocity_delta (Num 100) (Num 100) (scenario_config\<lparr>interactionMode := ATTRACT\<rparr>)
          (open_hand\<lparr>gesture := None\<rparr>) (particle_at 0 50 0 0))"
proof -
  have r: "current_params scenario_config (open_hand\<lparr>gesture := None\<rparr>) = (REPEL, Num 100, Num 2)"
    by (simp add: current_params_def scenario_config_def open_hand_def)
  have a: "current_params (scenario_config\<lparr>interactionMode := ATTRACT\<rparr>)
      (open_hand\<lparr>gesture := None\<rparr>) = (ATTRACT, Num 100, Num 2)"
    by (simp add: current_params_def scenario_config_def open_hand_def)
  have vr: "fst (velocity_delta (Num 100) (Num 100) scenario_config (open_hand\<lparr>gesture := None\<rparr>)
          (particle_at 0 50 0 0)) = Num (- 1)"
    by (simp add: velocity_delta_def hand_interaction_def current_params_def scenario_config_def
        open_hand_def particle_at_def Let_def)
  have va: "fst (velocity_delta (Num 100) (Num 100) (scenario_config\<lparr>interactionMode := ATTRACT\<rparr>)
          (open_hand\<lparr>gesture := None\<rparr>) (particle_at 0 50 0 0)) = Num 1"
    by (simp add: velocity_delta_def hand_interaction_def current_params_def scenario_config_def
        open_hand_def particle_at_def Let_def)
  show ?thesis
    using repel_negates_attract [OF r a refl refl refl, of "Num 100" "Num 100" "particle_at 0 50 0 0"]
      r a vr va
    by simp
qed

section \<open>The force inside and outside the radius\<close>

lemma delta_inside:
  assumes det: "detected hand"
    and fin: "width = Num w" "height = Num h" "hand_x hand = Num hx" "hand_y hand = Num hy"
      "p_x p = Num x" "p_y p = Num y" "p_vx p = Num vx" "p_vy p = Num vy"
    and cp: "current_params config hand = (mode, Num R, Num F)"
    and geo: "dx = hx * w - x" "dy = hy * h - y" "d = sqrt (dx * dx + dy * dy)"
    and pos: "0 < d" and inside: "d < R"
  shows "velocity_delta width height config hand p =
     (Num (mode_factor mode * (dx / d) * ((R - d) / R * F)),
      Num (mode_factor mode * (dy / d) * ((R - d) / R * F)))"
proof -
  have nn: "\<not> dx * dx + dy * dy < 0"
    by (simp add: not_less)
  have dist: "Math_sqrt ((hand_x hand * width - p_x p) * (hand_x hand * width - p_x p) +
      (hand_y hand * height - p_y p) * (hand_y hand * height - p_y p)) = Num d"
    using nn by (simp add: fin geo)
  have d0: "d \<noteq> 0" and R0: "R \<noteq> 0" using pos inside by auto
  show ?thesis
    unfolding velocity_delta_def hand_interaction_def Let_def dist cp
    using det d0 R0 inside
    by (cases mode) (simp_all add: fin geo(1,2) mode_factor_def field_simps)
qed

lemma delta_outside:
  assumes det: "detected hand"
    and fin: "width = Num w" "height = Num h" "hand_x hand = Num hx" "hand_y hand = Num hy"
      "p_x p = Num x" "p_y p = Num y" "p_vx p = Num vx" "p_vy p = Num vy"
    and cp: "current_params config hand = (mode, Num R, Num F)"
    and geo: "dx = hx * w - x" "dy = hy * h - y" "d = sqrt (dx * dx + dy * dy)"
    and outside: "R \<le> d"
  shows "velocity_delta width height config hand p = (Num 0, Num 0)"
proof -
  have nn: "\<not> dx * dx + dy * dy < 0"
    by (simp add: not_less)
  have dist: "Math_sqrt ((hand_x hand * width - p_x p) * (hand_x hand * width - p_x p) +
      (hand_y hand * height - p_y p) * (hand_y hand * height - p_y p)) = Num d"
    using nn by (simp add: fin geo)
  show ?thesis
    unfolding velocity_delta_def hand_interaction_def Let_def dist cp
    using det outside by (simp add: fin)
qed

lemma unit_direction:
  fixes dx dy d :: real
  assumes "d = sqrt (dx * dx + dy * dy)" and "0 < d"
  shows "(dx / d)\<^sup>2 + (dy / d)\<^sup>2 = 1"
proof -
  have d2: "d * d = dx * dx + dy * dy"
    using assms(1) by simp
  have "(dx / d)\<^sup>2 + (dy / d)\<^sup>2 = (dx * dx + dy * dy) / (d * d)"
    by (simp add: power2_eq_square add_divide_distrib)
  also have "\<dots> = (d * d) / (d * d)"
    by (simp only: d2)
  also have "\<dots> = 1"
    using assms(2) by simp
  finally show ?thesis .
qed

lemma delta_norm:
  fixes dx dy d k P :: real
  assumes "d = sqrt (dx * dx + dy * dy)" and "0 < d"
  shows "sqrt ((k * (dx / d) * P)\<^sup>2 + (k * (dy / d) * P)\<^sup>2) = \<bar>k\<bar> * \<bar>P\<bar>"
proof -
  have "(k * (dx / d) * P)\<^sup>2 + (k * (dy / d) * P)\<^sup>2 = (k * P)\<^sup>2 * ((dx / d)\<^sup>2 + (dy / d)\<^sup>2)"
    by (simp add: power2_eq_square field_simps)
  then have "(k * (dx / d) * P)\<^sup>2 + (k * (dy / d) * P)\<^sup>2 = (k * P)\<^sup>2"
    using unit_direction [OF assms] by simp
  then show ?thesis by (simp add: abs_mult)
qed

text \<open>
  Claim C1. For a detected hand and finite inputs, let \<open>(dx, dy)\<close> lead from the particle
  to the hand's pixel position, \<open>d\<close> be its length, and \<open>R\<close> and \<open>F\<close> the radius and force
  in effect. When \<open>0 < d < R\<close> the force adds to the velocity the unit direction
  \<open>(dx / d, dy / d)\<close> times \<open>(R - d) / R * F\<close>, negated in mode repel and scaled by 0.1 in
  mode trail; the length of that vector is \<open>(R - d) / R * \<bar>F\<bar>\<close>, times 0.1 in mode trail.
  When \<open>d \<ge> R\<close> it adds the zero vector. In the scenario of the specification (mode
  repel, open hand, force 2, radius 100, distance 50) the added vector has length 1.2
  and points away from the hand.
\<close>

theorem force_field_delta:
  assumes det: "detected hand"
    and fin: "width = Num w" "height = Num h" "hand_x hand = Num hx" "hand_y hand = Num hy"
      "p_x p = Num x" "p_y p = Num y" "p_vx p = Num vx" "p_vy p = Num vy"
    and cp: "current_params config hand = (mode, Num R, Num F)"
    and geo: "dx = hx * w - x" "dy = hy * h - y" "d = sqrt (dx * dx + dy * dy)"
    and pw: "pwr = (R - d) / R * F"
  shows "(0 < d \<and> d < R \<longrightarrow>
            velocity_delta width height config hand p =
              (Num (mode_factor mode * (dx / d) * pwr), Num (mode_factor mode * (dy / d) * pwr)) \<and>
            sqrt ((mode_factor mode * (dx / d) * pwr)\<^sup>2 + (mode_factor mode * (dy / d) * pwr)\<^sup>2) =
              \<bar>mode_factor mode\<bar> * ((R - d) / R * \<bar>F\<bar>)) \<and>
         (R \<le> d \<longrightarrow> velocity_delta width height config hand p = (Num 0, Num 0)) \<and>
         (interactionMode config = REPEL \<and> gesture hand = Some Open \<and>
          interactionForce config = Num 2 \<and> interactionRadius config = Num 100 \<and> d = 50 \<longrightarrow>
            velocity_delta width height config hand p =
              (Num (- (dx / 50) * 1.2), Num (- (dy / 50) * 1.2)) \<and>
            sqrt ((- (dx / 50) * 1.2)\<^sup>2 + (- (dy / 50) * 1.2)\<^sup>2) = 1.2 \<and>
            (- (dx / 50) * 1.2) * dx + (- (dy / 50) * 1.2) * dy < 0)"
proof (intro conjI impI)
  assume a: "0 < d \<and> d < R"
  show "velocity_delta width height config hand p =
      (Num (mode_factor mode * (dx / d) * pwr), Num (mode_factor mode * (dy / d) * pwr))"
    using delta_inside [OF det fin cp geo] a pw by simp
  have "0 < (R - d) / R" using a by simp
  then have "\<bar>(R - d) / R\<bar> = (R - d) / R" by (rule abs_of_pos)
  then have "\<bar>pwr\<bar> = (R - d) / R * \<bar>F\<bar>"
    unfolding pw by (simp only: abs_mult)
  then show "sqrt ((mode_factor mode * (dx / d) * pwr)\<^sup>2 + (mode_factor mode * (dy / d) * pwr)\<^sup>2) =
      \<bar>mode_factor mode\<bar> * ((R - d) / R * \<bar>F\<bar>)"
    using delta_norm [OF geo(3), of "mode_factor mode" pwr] a by simp
next
  assume "R \<le> d"
  then show "velocity_delta width height config hand p = (Num 0, Num 0)"
    using delta_outside [OF det fin cp geo] by simp
next
  assume s: "interactionMode config = REPEL \<and> gesture hand = Some Open \<and>
          interactionForce config = Num 2 \<and> interactionRadius config = Num 100 \<and> d = 50"
  then have "current_params config hand = (REPEL, Num 100, Num (12 / 5))"
    by (simp add: current_params_def)
  then have m: "mode = REPEL" and R: "R = 100" and F: "F = 12 / 5"
    using cp by simp_all
  have d: "d = 50" using s by simp
  have p: "pwr = 6 / 5" unfolding pw R F d by simp
  have i: "velocity_delta width height config hand p =
      (Num (mode_factor mode * (dx / d) * pwr), Num (mode_factor mode * (dy / d) * pwr))"
    using delta_inside [OF det fin cp geo] pw d R by simp
  show "velocity_delta width height config hand p =
      (Num (- (dx / 50) * 1.2), Num (- (dy / 50) * 1.2))"
    unfolding i m p d by (simp add: mode_factor_def)
  have "sqrt ((- 1 * (dx / d) * (6 / 5))\<^sup>2 + (- 1 * (dy / d) * (6 / 5))\<^sup>2) = \<bar>- 1\<bar> * \<bar>6 / 5 :: real\<bar>"
    using delta_norm [OF geo(3), of "- 1" "6 / 5"] d by simp
  then show "sqrt ((- (dx / 50) * 1.2)\<^sup>2 + (- (dy / 50) * 1.2)\<^sup>2) = 1.2"
    unfolding d by simp
  have "d * d = dx * dx + dy * dy"
    using geo(3) by simp
  then have "dx * dx + dy * dy = 2500" unfolding d by simp
  then have "(- (dx / 50) * 1.2) * dx + (- (dy / 50) * 1.2) * dy = - 60"
    by (simp add: algebra_simps)
  then show "(- (dx / 50) * 1.2) * dx + (- (dy / 50) * 1.2) * dy < 0"
    by simp
qed

theorem force_field_delta_witness:
  "detected open_hand \<and>
   current_params scenario_config open_hand = (REPEL, Num 100, Num (12 / 5)) \<and>
   (50 :: real) = sqrt (50 * 50 + 0 * 0) \<and>
   velocity_delta (Num 100) (Num 100) scenario_config open_hand (particle_at 0 50 0 0) =
     (Num (- (6 / 5)), Num 0)"
proof -
  have det: "detected open_hand"
    by (simp add: open_hand_def)
  have cp: "current_params scenario_config open_hand = (REPEL, Num 100, Num (12 / 5))"
    by (simp add: current_params_def scenario_config_def open_hand_def)
  have geo: "(50 :: real) = sqrt (50 * 50 + 0 * 0)"
    by simp
  have rng: "(0 :: real) < 50 \<and> (50 :: real) < 100"
    by simp
  have pw: "(6 / 5 :: real) = (100 - 50) / 100 * (12 / 5)"
    by simp
  note t = force_field_delta [where hand = open_hand and config = scenario_config
        and width = "Num 100" and height = "Num 100" and p = "particle_at 0 50 0 0"
        and w = 100 and h = 100 and hx = "1 / 2" and hy = "1 / 2" and x = 0 and y = 50
        and vx = 0 and vy = 0 and mode = REPEL and R = 100 and F = "12 / 5"
        and dx = 50 and dy = 0 and d = 50 and pwr = "6 / 5", OF det refl refl _ _ _ _ _ _ cp _ _ geo pw]
  have i: "velocity_delta (Num 100) (Num 100) scenario_config open_hand (particle_at 0 50 0 0) =
     (Num (mode_factor REPEL * (50 / 50) * (6 / 5)), Num (mode_factor REPEL * (0 / 50) * (6 / 5)))"
    by (rule t [THEN conjunct1, rule_format, OF _ _ _ _ _ _ _ _ rng, THEN conjunct1])
      (simp_all add: open_hand_def particle_at_def)
  have "velocity_delta (Num 100) (Num 100) scenario_config open_hand (particle_at 0 50 0 0) =
     (Num (- (6 / 5)), Num 0)"
    unfolding i by (simp add: mode_factor_def)
  then show ?thesis using det cp geo by simp
qed

section \<open>A particle under the hand\<close>

lemma NaN_absorbs:
  "a + NaN = NaN" "NaN + a = NaN" "a * NaN = NaN" "NaN * a = NaN"
  "\<not> NaN < a" "\<not> a < NaN" "\<not> NaN \<le> a" "\<not> a \<le> NaN"
  for a :: number
  by (cases a; simp)+

lemma NaN_stays:
  assumes "p_x p = NaN" and "p_y p = NaN" and "p_vx p = NaN" and "p_vy p = NaN"
    and "p_life p = Num 1"
  shows "update width height config hand p rs = (p, rs)"
proof -
  have b: "basic_physics config p = p"
    using assms by (simp add: basic_physics_def Let_def)
  have i: "hand_interaction width height config hand p = p"
    using assms by (simp add: hand_interaction_def Let_def split_def NaN_absorbs)
  have m: "integrate p = p"
    using assms by (simp add: integrate_def Let_def)
  have o: "\<not> out_of_bounds width height p"
    using assms by (simp add: out_of_bounds_def)
  show ?thesis
    using o by (simp add: update_def Let_def b i m)
qed

lemma zero_distance_gives_NaN_anywhere:
  assumes "detected hand"
    and "hand_x hand * width - p_x p = Num 0" and "hand_y hand * height - p_y p = Num 0"
    and "current_params config hand = (mode, Num R, force)" and "0 < R"
  shows "p_vx (hand_interaction width height config hand p) = NaN \<and>
         p_vy (hand_interaction width height config hand p) = NaN"
  using assms
  by (cases mode)
    (simp_all add: hand_interaction_def Let_def NaN_absorbs del: minus_number.simps,
      simp_all add: NaN_absorbs)

text \<open>
  Claim C2, which the code breaks. The particle at \<open>(50, 50)\<close> lies exactly under the hand
  on a canvas of 100 by 100: the distance is 0, the test \<open>distance < currentRadius\<close>
  passes, and \<open>dx / distance\<close> is \<open>0 / 0\<close>. The update leaves the particle with NaN as
  velocity and as position. No later update changes it: every comparison of the bounds
  test is false on NaN, so the particle is never reset. The same happens wherever a
  detected hand with a positive radius is exactly over a particle.
\<close>

theorem zero_distance_gives_NaN:
  "update (Num 100) (Num 100) scenario_config open_hand (particle_at 50 50 0 0) rs =
     ((particle_at 50 50 0 0)\<lparr>p_x := NaN, p_y := NaN, p_vx := NaN, p_vy := NaN\<rparr>, rs) \<and>
   update width height config hand
       ((particle_at 50 50 0 0)\<lparr>p_x := NaN, p_y := NaN, p_vx := NaN, p_vy := NaN\<rparr>) rs' =
     ((particle_at 50 50 0 0)\<lparr>p_x := NaN, p_y := NaN, p_vx := NaN, p_vy := NaN\<rparr>, rs')"
proof
  show "update (Num 100) (Num 100) scenario_config open_hand (particle_at 50 50 0 0) rs =
     ((particle_at 50 50 0 0)\<lparr>p_x := NaN, p_y := NaN, p_vx := NaN, p_vy := NaN\<rparr>, rs)"
    by (simp add: update_def basic_physics_def hand_interaction_def current_params_def
        integrate_def out_of_bounds_def scenario_config_def open_hand_def particle_at_def Let_def)
  show "update width height config hand
       ((particle_at 50 50 0 0)\<lparr>p_x := NaN, p_y := NaN, p_vx := NaN, p_vy := NaN\<rparr>) rs' =
     ((particle_at 50 50 0 0)\<lparr>p_x := NaN, p_y := NaN, p_vx := NaN, p_vy := NaN\<rparr>, rs')"
    by (rule NaN_stays) (simp_all add: particle_at_def)
qed

section \<open>The reset\<close>

lemma reset_position:
  "p_life (fst (reset width height config hand p rs)) = Num 1"
  "interactionMode config = TRAIL \<and> detected hand \<Longrightarrow>
     p_x (fst (reset width height config hand p rs)) = hand_x hand * width + Num ((rs 0 - 1 / 2) * 20) \<and>
     p_y (fst (reset width height config hand p rs)) = hand_y hand * height + Num ((rs 1 - 1 / 2) * 20)"
  "\<not> (interactionMode config = TRAIL \<and> detected hand) \<Longrightarrow>
     p_x (fst (reset width height config hand p rs)) = Num (rs 0) * width \<and>
     p_y (fst (reset width height config hand p rs)) = Num (rs 1) * height"
  by (auto simp add: reset_def Let_def split_def Math_random_def)

lemma leaving_particle:
  "integrate (hand_interaction (Num 100) (Num 100) trail_config edge_hand
      (basic_physics trail_config (particle_at 1 50 (- 2) 0))) =
   (particle_at 1 50 (- 2) 0)\<lparr>p_x := Num (- (128 / 125)), p_vx := Num (- (253 / 125))\<rparr>"
  by (simp add: basic_physics_def hand_interaction_def current_params_def integrate_def
      trail_config_def scenario_config_def edge_hand_def particle_at_def Let_def)

lemma leaving_particle_out:
  "out_of_bounds (Num 100) (Num 100)
     (integrate (hand_interaction (Num 100) (Num 100) trail_config edge_hand
        (basic_physics trail_config (particle_at 1 50 (- 2) 0))))"
  unfolding leaving_particle by (simp add: out_of_bounds_def particle_at_def)

text \<open>
  Claim C6 as stated fails. In trail mode, with the hand at the right edge of a canvas of
  100 by 100, a particle that leaves the canvas is reset to \<open>x = 100 + (0.9 - 0.5) * 20
  = 108\<close>, which is not inside \<open>[0, 100)\<close>.
\<close>

theorem trail_reset_outside_canvas:
  "out_of_bounds (Num 100) (Num 100)
     (integrate (hand_interaction (Num 100) (Num 100) trail_config edge_hand
        (basic_physics trail_config (particle_at 1 50 (- 2) 0)))) \<and>
   interactionMode trail_config = TRAIL \<and> detected edge_hand \<and> unit_draws late_draws \<and>
   p_x (fst (update (Num 100) (Num 100) trail_config edge_hand (particle_at 1 50 (- 2) 0)
     late_draws)) = Num 108 \<and>
   \<not> Num 108 < Num 100"
proof -
  have "p_x (fst (update (Num 100) (Num 100) trail_config edge_hand (particle_at 1 50 (- 2) 0)
     late_draws)) = Num 108"
    using leaving_particle_out
    by (simp add: update_def Let_def reset_def Math_random_def late_draws_def
        trail_config_def edge_hand_def)
  then show ?thesis
    using leaving_particle_out unit_draws_samples(2)
    by (simp add: trail_config_def edge_hand_def)
qed

text \<open>
  Claim C6, amended. A particle that is out of bounds after the integration leaves the
  update with life 1 and a new position. In trail mode with a detected hand the position
  is the hand's pixel position plus a jitter of \<open>(r - 0.5) * 20\<close> on each axis, which lies
  in \<open>[-10, 10)\<close>; nothing keeps that position inside the canvas. Otherwise the position
  is a draw times the width and a draw times the height, inside \<open>[0, width)\<close> and
  \<open>[0, height)\<close> on a canvas with positive sides.
\<close>

theorem reset_position_and_life:
  assumes oob: "out_of_bounds width height
            (integrate (hand_interaction width height config hand (basic_physics config p)))"
    and draws: "unit_draws rs"
    and q: "q = fst (update width height config hand p rs)"
  shows "p_life q = Num 1 \<and>
    (if interactionMode config = TRAIL \<and> detected hand then
       p_x q = hand_x hand * width + Num ((rs 0 - 1 / 2) * 20) \<and>
       p_y q = hand_y hand * height + Num ((rs 1 - 1 / 2) * 20) \<and>
       - 10 \<le> (rs 0 - 1 / 2) * 20 \<and> (rs 0 - 1 / 2) * 20 < 10 \<and>
       - 10 \<le> (rs 1 - 1 / 2) * 20 \<and> (rs 1 - 1 / 2) * 20 < 10
     else
       p_x q = Num (rs 0) * width \<and> p_y q = Num (rs 1) * height \<and>
       (\<forall>w. width = Num w \<and> 0 < w \<longrightarrow> p_x q = Num (rs 0 * w) \<and> 0 \<le> rs 0 * w \<and> rs 0 * w < w) \<and>
       (\<forall>h. height = Num h \<and> 0 < h \<longrightarrow> p_y q = Num (rs 1 * h) \<and> 0 \<le> rs 1 * h \<and> rs 1 * h < h))"
proof -
  have u: "q = fst (reset width height config hand
      (integrate (hand_interaction width height config hand (basic_physics config p))) rs)"
    using oob q by (simp add: update_def Let_def)
  have d0: "0 \<le> rs 0 \<and> rs 0 < 1" and d1: "0 \<le> rs 1 \<and> rs 1 < 1"
    using draws unit_drawsD by blast+
  show ?thesis
  proof (cases "interactionMode config = TRAIL \<and> detected hand")
    case True
    then show ?thesis
      using d0 d1 reset_position(2) [OF True] by (simp add: u reset_position(1))
  next
    case False
    then show ?thesis
      using d0 d1 reset_position(3) [OF False] by (auto simp add: u reset_position(1))
  qed
qed

theorem reset_position_and_life_witness:
  "out_of_bounds (Num 100) (Num 100)
     (integrate (hand_interaction (Num 100) (Num 100) trail_config edge_hand
        (basic_physics trail_config (particle_at 1 50 (- 2) 0)))) \<and>
   unit_draws late_draws \<and>
   p_life (fst (update (Num 100) (Num 100) trail_config edge_hand (particle_at 1 50 (- 2) 0)
     late_draws)) = Num 1 \<and>
   p_x (fst (update (Num 100) (Num 100) trail_config edge_hand (particle_at 1 50 (- 2) 0)
     late_draws)) = Num 108 \<and>
   p_y (fst (update (Num 100) (Num 100) trail_config edge_hand (particle_at 1 50 (- 2) 0)
     late_draws)) = Num 58"
proof -
  have m: "interactionMode trail_config = TRAIL \<and> detected edge_hand"
    by (simp add: trail_config_def edge_hand_def)
  note t = reset_position_and_life [OF leaving_particle_out unit_draws_samples(2) refl]
  have "p_life (fst (update (Num 100) (Num 100) trail_config edge_hand (particle_at 1 50 (- 2) 0)
       late_draws)) = Num 1 \<and>
     p_x (fst (update (Num 100) (Num 100) trail_config edge_hand (particle_at 1 50 (- 2) 0)
       late_draws)) = hand_x edge_hand * Num 100 + Num ((late_draws 0 - 1 / 2) * 20) \<and>
     p_y (fst (update (Num 100) (Num 100) trail_config edge_hand (particle_at 1 50 (- 2) 0)
       late_draws)) = hand_y edge_hand * Num 100 + Num ((late_draws 1 - 1 / 2) * 20)"
    using t m by simp
  then show ?thesis
    using leaving_particle_out unit_draws_samples(2)
    by (simp add: edge_hand_def late_draws_def)
qed

section \<open>Construction checks nothing\<close>

lemma color_of_empty: "array_get [] i = None"
  by (cases i) simp_all

lemma color_of_nonempty:
  assumes "xs \<noteq> []" and "0 \<le> r" and "r < 1"
  shows "\<exists>c \<in> set xs. array_get xs (Math_floor (Num r * array_length xs)) = Some c"
proof -
  let ?n = "length xs"
  have n: "0 < real ?n" using assms(1) by simp
  have lo: "0 \<le> r * real ?n" using assms(2) by simp
  have hi: "r * real ?n < real ?n" using assms(3) n by simp
  have f0: "0 \<le> \<lfloor>r * real ?n\<rfloor>" using lo by simp
  have "\<lfloor>r * real ?n\<rfloor> < int ?n" using hi by (simp add: floor_less_iff)
  then have f1: "nat \<lfloor>r * real ?n\<rfloor> < ?n" using f0 by linarith
  have "array_get xs (Math_floor (Num r * array_length xs)) = Some (xs ! nat \<lfloor>r * real ?n\<rfloor>)"
    using f0 f1 by (simp add: array_length_def)
  then show ?thesis using f1 by auto
qed

lemma size_inverted:
  fixes a b r :: real
  assumes "b < a" and "0 \<le> r" and "r < 1"
  shows "b < r * (b - a) + a \<and> r * (b - a) + a \<le> a"
proof -
  have "r * (a - b) < 1 * (a - b)" using assms by (intro mult_strict_right_mono) auto
  moreover have "0 \<le> r * (a - b)" using assms by simp
  ultimately show ?thesis by (simp add: algebra_simps)
qed

lemma size_in_range:
  fixes a b r :: real
  assumes "a \<le> b" and "0 \<le> r" and "r < 1"
  shows "a \<le> r * (b - a) + a \<and> r * (b - a) + a \<le> b"
proof -
  have "r * (b - a) \<le> 1 * (b - a)" using assms by (intro mult_right_mono) auto
  moreover have "0 \<le> r * (b - a)" using assms by simp
  ultimately show ?thesis by (simp add: algebra_simps)
qed

lemma loop_test: "(real i < c) = (i < nat \<lceil>c\<rceil>)"
proof -
  have "(real i < c) = (int i < \<lceil>c\<rceil>)" by (simp add: less_ceiling_iff)
  then show ?thesis by auto
qed

lemma init_particles_loop_total:
  assumes "particleCount config = Num c"
  shows "\<exists>ps' rs'. init_particles_loop width height config i ps rs = Some (ps', rs') \<and>
           length ps' = length ps + (nat \<lceil>c\<rceil> - i)"
proof (induction "nat \<lceil>c\<rceil> - i" arbitrary: i ps rs)
  case 0
  then have "\<not> i < nat \<lceil>c\<rceil>" by linarith
  then have "\<not> real i < c" using loop_test [of i c] by blast
  then have "\<not> Num (real i) < particleCount config"
    by (simp add: assms)
  then show ?case using 0
    by (subst init_particles_loop.simps) simp
next
  case (Suc k)
  then have "i < nat \<lceil>c\<rceil>" by linarith
  then have "real i < c" using loop_test [of i c] by blast
  then have t: "Num (real i) < particleCount config"
    by (simp add: assms)
  obtain q rs1 where q: "Particle_new width height config rs = (q, rs1)"
    by (cases "Particle_new width height config rs") auto
  have "k = nat \<lceil>c\<rceil> - Suc i" using Suc(2) by simp
  from Suc(1) [OF this, of "ps @ [q]" rs1]
  obtain ps' rs' where r: "init_particles_loop width height config (Suc i) (ps @ [q]) rs1 = Some (ps', rs')"
    and l: "length ps' = length (ps @ [q]) + (nat \<lceil>c\<rceil> - Suc i)"
    by blast
  have "init_particles_loop width height config i ps rs = Some (ps', rs')"
    using t q r by (subst init_particles_loop.simps) simp
  moreover have "length ps' = length ps + (nat \<lceil>c\<rceil> - i)"
    using l Suc(2) by simp
  ultimately show ?case by blast
qed

lemma born_from_bad_config:
  "Particle_new (Num 100) (Num 100) bad_config half_draws = (born 4 None, half_draws)"
  by (simp add: Particle_new_def Math_random_def half_draws_def bad_config_def
      scenario_config_def array_length_def born_def Let_def)

lemma born_from_scenario_config:
  "Particle_new (Num 100) (Num 100) scenario_config half_draws =
     (born 2 (Some ''#aaaaaa''), half_draws)"
  by (simp add: Particle_new_def Math_random_def half_draws_def
      scenario_config_def array_length_def born_def Let_def)

lemma two_passes:
  assumes "particleCount config = Num 2"
    and "Particle_new width height config rs = (q, rs)"
  shows "init_particles width height config rs = Some ([q, q], rs)"
proof -
  have l2: "init_particles_loop width height config (Suc (Suc 0)) [q, q] rs = Some ([q, q], rs)"
    by (subst init_particles_loop.simps) (simp add: assms)
  have l1: "init_particles_loop width height config (Suc 0) [q] rs = Some ([q, q], rs)"
    by (subst init_particles_loop.simps) (simp add: assms l2)
  show ?thesis
    unfolding init_particles_def
    by (subst init_particles_loop.simps) (simp add: assms l1)
qed

text \<open>
  Claim C8 as stated fails. Under a configuration with an empty palette, minimum size 6
  and maximum size 2, the constructor returns a particle, of size 4 and without a colour,
  and the loop returns a population of two of them.
\<close>

theorem empty_palette_is_not_rejected:
  "colors bad_config = [] \<and> minSize bad_config = Num 6 \<and> maxSize bad_config = Num 2 \<and>
   Particle_new (Num 100) (Num 100) bad_config half_draws = (born 4 None, half_draws) \<and>
   init_particles (Num 100) (Num 100) bad_config half_draws =
     Some ([born 4 None, born 4 None], half_draws) \<and>
   p_color (born 4 None) = None \<and> p_size (born 4 None) = Num 4 \<and> \<not> Num 6 \<le> Num 4"
proof -
  have "particleCount bad_config = Num 2"
    by (simp add: bad_config_def scenario_config_def)
  then have "init_particles (Num 100) (Num 100) bad_config half_draws =
     Some ([born 4 None, born 4 None], half_draws)"
    using born_from_bad_config by (rule two_passes)
  then show ?thesis
    using born_from_bad_config by (simp add: bad_config_def born_def)
qed

text \<open>
  Claim C8, amended. Neither the constructor nor the loop that builds the population
  rejects a configuration: every call returns a particle, and the loop returns a
  population for every finite count. With an empty palette the colour of the particle is
  undefined, with a non-empty one it is a colour of the palette. With
  \<open>minSize > maxSize\<close> the size lies in \<open>(maxSize, minSize]\<close>, with
  \<open>minSize \<le> maxSize\<close> in \<open>[minSize, maxSize]\<close>.
\<close>

theorem construction_never_rejects:
  assumes draws: "unit_draws rs"
  shows "(colors config = [] \<longrightarrow> p_color (fst (Particle_new width height config rs)) = None) \<and>
    (colors config \<noteq> [] \<longrightarrow>
       (\<exists>c \<in> set (colors config). p_color (fst (Particle_new width height config rs)) = Some c)) \<and>
    (\<forall>a b. minSize config = Num a \<and> maxSize config = Num b \<and> b < a \<longrightarrow>
       (\<exists>s. p_size (fst (Particle_new width height config rs)) = Num s \<and> b < s \<and> s \<le> a)) \<and>
    (\<forall>a b. minSize config = Num a \<and> maxSize config = Num b \<and> a \<le> b \<longrightarrow>
       (\<exists>s. p_size (fst (Particle_new width height config rs)) = Num s \<and> a \<le> s \<and> s \<le> b)) \<and>
    (\<forall>c. particleCount config = Num c \<longrightarrow>
       (\<exists>ps rs'. init_particles width height config rs = Some (ps, rs') \<and>
          length ps = nat \<lceil>c\<rceil>))"
proof -
  have d4: "0 \<le> rs 4 \<and> rs 4 < 1" and d5: "0 \<le> rs 5 \<and> rs 5 < 1"
    using draws unit_drawsD by blast+
  have c1: "colors config = [] \<longrightarrow> p_color (fst (Particle_new width height config rs)) = None"
    by (simp add: Particle_new_fields color_of_empty)
  have c2: "colors config \<noteq> [] \<longrightarrow>
       (\<exists>c \<in> set (colors config). p_color (fst (Particle_new width height config rs)) = Some c)"
    using color_of_nonempty [of "colors config" "rs 5"] d5
    by (simp add: Particle_new_fields)
  have c3: "\<forall>a b. minSize config = Num a \<and> maxSize config = Num b \<and> b < a \<longrightarrow>
       (\<exists>s. p_size (fst (Particle_new width height config rs)) = Num s \<and> b < s \<and> s \<le> a)"
    using size_inverted d4 by (simp add: Particle_new_fields)
  have c4: "\<forall>a b. minSize config = Num a \<and> maxSize config = Num b \<and> a \<le> b \<longrightarrow>
       (\<exists>s. p_size (fst (Particle_new width height config rs)) = Num s \<and> a \<le> s \<and> s \<le> b)"
    using size_in_range d4 by (simp add: Particle_new_fields)
  have c5: "\<forall>c. particleCount config = Num c \<longrightarrow>
       (\<exists>ps rs'. init_particles width height config rs = Some (ps, rs') \<and>
          length ps = nat \<lceil>c\<rceil>)"
    using init_particles_loop_total [of config _ width height 0 "[]" rs]
    by (simp add: init_particles_def)
  show ?thesis using c1 c2 c3 c4 c5 by blast
qed

theorem construction_never_rejects_witness:
  "unit_draws half_draws \<and>
   p_color (fst (Particle_new (Num 100) (Num 100) bad_config half_draws)) = None \<and>
   (\<exists>s. p_size (fst (Particle_new (Num 100) (Num 100) bad_config half_draws)) = Num s \<and>
      2 < s \<and> s \<le> 6) \<and>
   (\<exists>ps rs'. init_particles (Num 100) (Num 100) bad_config half_draws = Some (ps, rs') \<and>
      length ps = 2)"
proof -
  note t = construction_never_rejects [OF unit_draws_samples(1), of bad_config "Num 100" "Num 100"]
  have c: "colors bad_config = []"
    by (simp add: bad_config_def)
  have s: "minSize bad_config = Num 6 \<and> maxSize bad_config = Num 2 \<and> (2 :: real) < 6"
    by (simp add: bad_config_def)
  have n: "particleCount bad_config = Num 2"
    by (simp add: bad_config_def scenario_config_def)
  have "p_color (fst (Particle_new (Num 100) (Num 100) bad_config half_draws)) = None"
    using t c by blast
  moreover have "\<exists>s. p_size (fst (Particle_new (Num 100) (Num 100) bad_config half_draws)) = Num s \<and>
      2 < s \<and> s \<le> 6"
    using t s by blast
  moreover have "\<exists>ps rs'. init_particles (Num 100) (Num 100) bad_config half_draws = Some (ps, rs') \<and>
      length ps = nat \<lceil>2 :: real\<rceil>"
    using t n by blast
  ultimately show ?thesis
    using unit_draws_samples(1) by simp
qed

section \<open>Stasis\<close>

lemma inside_larger_canvas:
  assumes "x \<le> w" and "Num w \<le> width"
  shows "\<not> Num x > width"
  using assms by (cases width) simp_all

lemma update_resting:
  assumes "gravity config = Num 0" and "friction config = Num 1" and "\<not> detected hand"
    and "Num w \<le> width" and "Num h \<le> height"
    and "resting w h p"
  shows "update width height config hand p rs = (p, rs)"
proof -
  obtain x y where f: "p_x p = Num x" "p_y p = Num y" "0 \<le> x" "x \<le> w" "0 \<le> y" "y \<le> h"
      "p_vx p = Num 0" "p_vy p = Num 0" "p_life p = Num 1"
    using assms(6) by (auto simp add: resting_def)
  have b: "basic_physics config p = p"
    using f assms(1,2) by (simp add: basic_physics_def Let_def)
  have i: "hand_interaction width height config hand p = p"
    using assms(3) by (simp add: hand_interaction_def)
  have m: "integrate p = p"
    using f by (simp add: integrate_def Let_def)
  have o: "\<not> out_of_bounds width height p"
    using f inside_larger_canvas [OF f(4) assms(4)] inside_larger_canvas [OF f(6) assms(5)]
    by (simp add: out_of_bounds_def)
  show ?thesis
    using o by (simp add: update_def Let_def b i m)
qed

lemma update_all_resting:
  assumes "gravity config = Num 0" and "friction config = Num 1" and "\<not> detected hand"
    and "Num w \<le> width" and "Num h \<le> height"
  shows "list_all (resting w h) ps \<Longrightarrow> update_all width height config hand ps rs = (ps, rs)"
  by (induction ps) (simp_all add: update_resting [OF assms])

lemma animate_resting:
  assumes g: "gravity config = Num 0" and f: "friction config = Num 1"
    and r: "list_all (resting w h) ps"
  shows "list_all (calm_frame w h config) frames \<Longrightarrow> animate frames ps rs = (ps, rs)"
proof (induction frames)
  case Nil
  show ?case by simp
next
  case (Cons fr frames)
  obtain width height config' hand where fr: "fr = (width, height, config', hand)"
    by (cases fr) auto
  have c: "Num w \<le> width" "Num h \<le> height" "config' = config" "\<not> detected hand"
    using Cons.prems fr by (simp_all add: calm_frame_def)
  have "update_all width height config hand ps rs = (ps, rs)"
    using update_all_resting [OF g f c(4) c(1,2) r] .
  then show ?case
    using Cons fr c(3) by simp
qed

lemma init_particles_loop_resting:
  assumes run: "init_particles_loop width height config i ps rs = Some y"
  shows "width = Num w \<and> height = Num h \<and> speed config = Num 0 \<and> 0 \<le> w \<and> 0 \<le> h \<and>
     unit_draws rs \<and> list_all (resting w h) ps \<longrightarrow> list_all (resting w h) (fst y)"
proof (rule init_particles_loop.raw_induct
    [where P = "\<lambda>width height config i ps rs y.
       width = Num w \<and> height = Num h \<and> speed config = Num 0 \<and> 0 \<le> w \<and> 0 \<le> h \<and>
       unit_draws rs \<and> list_all (resting w h) ps \<longrightarrow> list_all (resting w h) (fst y)", OF _ run])
  fix loop :: "number \<Rightarrow> number \<Rightarrow> ParticleConfig \<Rightarrow> nat \<Rightarrow> Particle list \<Rightarrow> rng \<Rightarrow> (Particle list \<times> rng) option"
  fix width height config i ps rs y
  assume IH: "\<And>width height config i ps rs y. loop width height config i ps rs = Some y \<Longrightarrow>
       width = Num w \<and> height = Num h \<and> speed config = Num 0 \<and> 0 \<le> w \<and> 0 \<le> h \<and>
       unit_draws rs \<and> list_all (resting w h) ps \<longrightarrow> list_all (resting w h) (fst y)"
  assume step: "(if Num (real i) < particleCount config
      then case Particle_new width height config rs of
           (p, rs') \<Rightarrow> loop width height config (Suc i) (ps @ [p]) rs'
      else Some (ps, rs)) = Some y"
  show "width = Num w \<and> height = Num h \<and> speed config = Num 0 \<and> 0 \<le> w \<and> 0 \<le> h \<and>
       unit_draws rs \<and> list_all (resting w h) ps \<longrightarrow> list_all (resting w h) (fst y)"
  proof (intro impI, elim conjE)
    assume a: "width = Num w" "height = Num h" "speed config = Num 0" "0 \<le> w" "0 \<le> h"
      "unit_draws rs" "list_all (resting w h) ps"
    show "list_all (resting w h) (fst y)"
    proof (cases "Num (real i) < particleCount config")
      case False
      then show ?thesis using step a(7) by auto
    next
      case True
      obtain q rs1 where q: "Particle_new width height config rs = (q, rs1)"
        by (cases "Particle_new width height config rs") auto
      have r: "loop width height config (Suc i) (ps @ [q]) rs1 = Some y"
        using step True q by simp
      have "resting w h q"
        using Particle_new_resting [OF a(3,4,5,6)] a(1,2) q by simp
      moreover have "unit_draws rs1"
        using Particle_new_unit_draws [OF a(6), of width height config] q by simp
      ultimately show ?thesis
        using IH [OF r] a by simp
    qed
  qed
qed

text \<open>
  Claim C9 as stated fails. The bounds test of \<open>update\<close> reads the size the canvas has in
  that frame. A population built at rest on a canvas of 100 by 100 has its particles at
  \<open>(50, 50)\<close>; one frame on a canvas shrunk to 40 by 40, under the same configuration and
  without a detected hand, finds them out of bounds and resets them to \<open>(20, 20)\<close>.
\<close>

theorem shrunken_canvas_moves_particles:
  "gravity scenario_config = Num 0 \<and> friction scenario_config = Num 1 \<and>
   speed scenario_config = Num 0 \<and> unit_draws half_draws \<and>
   init_particles (Num 100) (Num 100) scenario_config half_draws =
     Some ([born 2 (Some ''#aaaaaa''), born 2 (Some ''#aaaaaa'')], half_draws) \<and>
   \<not> detected (open_hand\<lparr>detected := False\<rparr>) \<and>
   map (\<lambda>p. (p_x p, p_y p)) [born 2 (Some ''#aaaaaa''), born 2 (Some ''#aaaaaa'')] =
     [(Num 50, Num 50), (Num 50, Num 50)] \<and>
   map (\<lambda>p. (p_x p, p_y p))
     (fst (animate [(Num 40, Num 40, scenario_config, open_hand\<lparr>detected := False\<rparr>)]
        [born 2 (Some ''#aaaaaa''), born 2 (Some ''#aaaaaa'')] half_draws)) =
     [(Num 20, Num 20), (Num 20, Num 20)]"
proof -
  have n: "particleCount scenario_config = Num 2"
    by (simp add: scenario_config_def)
  have i: "init_particles (Num 100) (Num 100) scenario_config half_draws =
     Some ([born 2 (Some ''#aaaaaa''), born 2 (Some ''#aaaaaa'')], half_draws)"
    using n born_from_scenario_config by (rule two_passes)
  have u: "update (Num 40) (Num 40) scenario_config (open_hand\<lparr>detected := False\<rparr>)
      (born 2 (Some ''#aaaaaa'')) half_draws =
    ((born 2 (Some ''#aaaaaa''))\<lparr>p_x := Num 20, p_y := Num 20\<rparr>, half_draws)"
    by (simp add: update_def basic_physics_def hand_interaction_def integrate_def
        out_of_bounds_def reset_def Math_random_def half_draws_def scenario_config_def
        born_def Let_def)
  show ?thesis
    using i unit_draws_samples(1)
    by (simp add: u) (simp add: scenario_config_def born_def)
qed

text \<open>
  Claim C9, amended. A population built under a configuration with gravity 0, friction 1
  and speed 0, and animated under that configuration while no hand is detected, keeps
  the position of every particle for any number of frames, as long as the canvas of
  every frame is at least as large as the one the population was built for.
\<close>

theorem stasis_without_forces:
  assumes "gravity config = Num 0" and "friction config = Num 1" and "speed config = Num 0"
    and "width = Num w" and "0 \<le> w" and "height = Num h" and "0 \<le> h"
    and "unit_draws rs"
    and "init_particles width height config rs = Some (ps, rs')"
    and "list_all (calm_frame w h config) frames"
  shows "map (\<lambda>p. (p_x p, p_y p)) (fst (animate frames ps rs')) = map (\<lambda>p. (p_x p, p_y p)) ps"
proof -
  have "list_all (resting w h) ps"
    using init_particles_loop_resting [of width height config 0 "[]" rs "(ps, rs')" w h] assms
    by (simp add: init_particles_def)
  then show ?thesis
    using animate_resting [OF assms(1,2) _ assms(10), of ps rs'] by simp
qed

theorem stasis_without_forces_witness:
  "gravity scenario_config = Num 0 \<and> friction scenario_config = Num 1 \<and>
   speed scenario_config = Num 0 \<and> unit_draws half_draws \<and>
   init_particles (Num 100) (Num 100) scenario_config half_draws =
     Some ([born 2 (Some ''#aaaaaa''), born 2 (Some ''#aaaaaa'')], half_draws) \<and>
   map (\<lambda>p. (p_x p, p_y p))
     (fst (animate
        [(Num 100, Num 100, scenario_config, open_hand\<lparr>detected := False\<rparr>),
         (Num 300, Num 150, scenario_config, open_hand\<lparr>detected := False, gesture := None\<rparr>)]
        [born 2 (Some ''#aaaaaa''), born 2 (Some ''#aaaaaa'')] half_draws)) =
     [(Num 50, Num 50), (Num 50, Num 50)]"
proof -
  have g: "gravity scenario_config = Num 0" and f: "friction scenario_config = Num 1"
    and s: "speed scenario_config = Num 0" and n: "particleCount scenario_config = Num 2"
    by (simp_all add: scenario_config_def)
  have i: "init_particles (Num 100) (Num 100) scenario_config half_draws =
     Some ([born 2 (Some ''#aaaaaa''), born 2 (Some ''#aaaaaa'')], half_draws)"
    using n born_from_scenario_config by (rule two_passes)
  have h: "list_all (calm_frame 100 100 scenario_config)
      [(Num 100, Num 100, scenario_config, open_hand\<lparr>detected := False\<rparr>),
       (Num 300, Num 150, scenario_config, open_hand\<lparr>detected := False, gesture := None\<rparr>)]"
    by (simp add: calm_frame_def)
  have "map (\<lambda>p. (p_x p, p_y p))
     (fst (animate
        [(Num 100, Num 100, scenario_config, open_hand\<lparr>detected := False\<rparr>),
         (Num 300, Num 150, scenario_config, open_hand\<lparr>detected := False, gesture := None\<rparr>)]
        [born 2 (Some ''#aaaaaa''), born 2 (Some ''#aaaaaa'')] half_draws)) =
     map (\<lambda>p. (p_x p, p_y p)) [born 2 (Some ''#aaaaaa''), born 2 (Some ''#aaaaaa'')]"
    by (rule stasis_without_forces [OF g f s refl _ refl _ unit_draws_samples(1) i h]) simp_all
  then show ?thesis
    using g f s i unit_draws_samples(1) by (simp add: born_def)
qed

end
